theory Spec2Isabelle
  imports Complex_Main "HOL-Library.Monad_Syntax"
begin

section \<open>The converter of UPCGen HEPMC listings to LHE\<close>

text \<open>
  The development embeds \<^verbatim>\<open>bin/UPCgen/macros/convert_UGHEPMC2LHE.cpp\<close>.
  The input file is the list of its lines (what successive \<^verbatim>\<open>getline\<close> calls
  return), the output file is the list of the lines written, and a thrown exception is
  a value of type \<open>error\<close>. A \<^verbatim>\<open>double\<close> is a real number: rounding, overflow
  and underflow of binary64 are outside the model. An \<^verbatim>\<open>int\<close> is an integer that
  the stream extraction only delivers inside the 32-bit range.
\<close>

subsection \<open>Four-vectors of the ROOT GenVector library\<close>

text \<open>
  \<^verbatim>\<open>Math/Vector4D.h\<close> is a header of the ROOT library. The two coordinate
  systems the converter uses are transcribed here, method by method:
  \<^verbatim>\<open>PxPyPzE4D\<close> stores (fX, fY, fZ, fT) and \<^verbatim>\<open>PxPyPzM4D\<close> stores
  (fX, fY, fZ, fM); each derives the fourth quantity of the other.
\<close>

record PxPyPzE4D =
  eX :: real
  eY :: real
  eZ :: real
  eT :: real

record PxPyPzM4D =
  mX :: real
  mY :: real
  mZ :: real
  mM :: real

definition E4D_M2 :: "PxPyPzE4D \<Rightarrow> real" where
  "E4D_M2 v = eT v * eT v - eX v * eX v - eY v * eY v - eZ v * eZ v"

text \<open>\<^verbatim>\<open>PxPyPzE4D::M()\<close>: a spacelike vector gets the negated root of \<open>- M2\<close>
  (the library's exceptions are off unless switched on).\<close>

definition E4D_M :: "PxPyPzE4D \<Rightarrow> real" where
  "E4D_M v = (let mm = E4D_M2 v in if mm \<ge> 0 then sqrt mm else - sqrt (- mm))"

definition M4D_P2 :: "PxPyPzM4D \<Rightarrow> real" where
  "M4D_P2 v = mX v * mX v + mY v * mY v + mZ v * mZ v"

definition M4D_M2 :: "PxPyPzM4D \<Rightarrow> real" where
  "M4D_M2 v = (if mM v \<ge> 0 then mM v * mM v else - (mM v * mM v))"

definition M4D_E2 :: "PxPyPzM4D \<Rightarrow> real" where
  "M4D_E2 v = (let e2 = M4D_P2 v + M4D_M2 v in if e2 > 0 then e2 else 0)"

definition M4D_E :: "PxPyPzM4D \<Rightarrow> real" where
  "M4D_E v = sqrt (M4D_E2 v)"

text \<open>The four-scalar constructor of \<^verbatim>\<open>PxPyPzM4D\<close>. Its restriction of a
  negative mass acts on \<open>m < 0\<close> only; the converter always passes the literal 0.\<close>

definition PxPyPzMVector :: "real \<Rightarrow> real \<Rightarrow> real \<Rightarrow> real \<Rightarrow> PxPyPzM4D" where
  "PxPyPzMVector px py pz m = \<lparr>mX = px, mY = py, mZ = pz, mM = m\<rparr>"

definition PxPyPzEVector :: "real \<Rightarrow> real \<Rightarrow> real \<Rightarrow> real \<Rightarrow> PxPyPzE4D" where
  "PxPyPzEVector px py pz e = \<lparr>eX = px, eY = py, eZ = pz, eT = e\<rparr>"

text \<open>Construction of one coordinate system from the other copies x, y, z and asks
  the source for its mass or its energy.\<close>

definition M4D_of_E4D :: "PxPyPzE4D \<Rightarrow> PxPyPzM4D" where
  "M4D_of_E4D v = \<lparr>mX = eX v, mY = eY v, mZ = eZ v, mM = E4D_M v\<rparr>"

definition E4D_of_M4D :: "PxPyPzM4D \<Rightarrow> PxPyPzE4D" where
  "E4D_of_M4D v = \<lparr>eX = mX v, eY = mY v, eZ = mZ v, eT = M4D_E v\<rparr>"

text \<open>\<^verbatim>\<open>LorentzVector::operator+=\<close> is
  \<^verbatim>\<open>SetXYZT(x() + q.x(), y() + q.y(), z() + q.z(), t() + q.t())\<close>, and
  \<^verbatim>\<open>PxPyPzM4D::SetPxPyPzE\<close> assigns from the \<^verbatim>\<open>PxPyPzE4D\<close> of its arguments.\<close>

definition M4D_add_E4D :: "PxPyPzM4D \<Rightarrow> PxPyPzE4D \<Rightarrow> PxPyPzM4D" where
  "M4D_add_E4D p q =
     M4D_of_E4D (PxPyPzEVector (mX p + eX q) (mY p + eY q) (mZ p + eZ q) (M4D_E p + eT q))"

subsection \<open>Formatted extraction from a line\<close>

text \<open>
  \<^verbatim>\<open>std::istringstream(line) >> ...\<close> in the classic locale. Each extractor skips
  leading white space, consumes the longest prefix of the right shape and returns the
  rest of the line; \<open>None\<close> is the stream's fail state, which every later extractor
  keeps.
\<close>

definition isspace :: "char \<Rightarrow> bool" where
  "isspace c = (c = CHR '' '' \<or> (9 \<le> (of_char c :: nat) \<and> (of_char c :: nat) \<le> 13))"

definition isdigit :: "char \<Rightarrow> bool" where
  "isdigit c = (48 \<le> (of_char c :: nat) \<and> (of_char c :: nat) \<le> 57)"

definition digits_val :: "string \<Rightarrow> nat" where
  "digits_val ds = foldl (\<lambda>a c. 10 * a + ((of_char c :: nat) - 48)) 0 ds"

definition get_string :: "string \<Rightarrow> (string \<times> string) option" where
  "get_string s =
     (let t = dropWhile isspace s; w = takeWhile (\<lambda>c. \<not> isspace c) t
      in if w = [] then None else Some (w, dropWhile (\<lambda>c. \<not> isspace c) t))"

definition get_sign :: "string \<Rightarrow> bool \<times> string" where
  "get_sign t =
     (case t of
        [] \<Rightarrow> (False, [])
      | c # r \<Rightarrow> if c = CHR ''-'' then (True, r) else if c = CHR ''+'' then (False, r)
                 else (False, t))"

definition get_int :: "string \<Rightarrow> (int \<times> string) option" where
  "get_int s =
     (let (neg, t) = get_sign (dropWhile isspace s); ds = takeWhile isdigit t
      in if ds = [] then None
         else let v = (if neg then - int (digits_val ds) else int (digits_val ds))
              in if v < - 2147483648 \<or> 2147483647 < v then None
                 else Some (v, dropWhile isdigit t))"

definition pow10 :: "int \<Rightarrow> real" where
  "pow10 e = (if e \<ge> 0 then 10 ^ nat e else 1 / 10 ^ nat (- e))"

definition get_exponent :: "string \<Rightarrow> (int \<times> string) option" where
  "get_exponent t =
     (case t of
        [] \<Rightarrow> Some (0, [])
      | c # r \<Rightarrow>
          if c = CHR ''e'' \<or> c = CHR ''E'' then
            (let (neg, r1) = get_sign r; ds = takeWhile isdigit r1
             in if ds = [] then None
                else Some (if neg then - int (digits_val ds) else int (digits_val ds),
                           dropWhile isdigit r1))
          else Some (0, t))"

definition get_double :: "string \<Rightarrow> (real \<times> string) option" where
  "get_double s =
     (let (neg, t) = get_sign (dropWhile isspace s);
          ip = takeWhile isdigit t; t1 = dropWhile isdigit t;
          (fp, t2) = (case t1 of
                        [] \<Rightarrow> ([], [])
                      | c # r \<Rightarrow> if c = CHR ''.'' then (takeWhile isdigit r, dropWhile isdigit r)
                                 else ([], t1))
      in if ip @ fp = [] then None
         else case get_exponent t2 of
                None \<Rightarrow> None
              | Some (ex, t3) \<Rightarrow>
                  let m = real (digits_val (ip @ fp)) * pow10 (ex - int (length fp))
                  in Some (if neg then - m else m, t3))"

subsection \<open>Lines of the listing\<close>

text \<open>\<^verbatim>\<open>line.rfind(pat, 0) == 0\<close>: the line begins with \<open>pat\<close>.\<close>

fun starts_with :: "string \<Rightarrow> string \<Rightarrow> bool" where
  "starts_with [] s = True"
| "starts_with (p # ps) [] = False"
| "starts_with (p # ps) (c # cs) = (p = c \<and> starts_with ps cs)"

text \<open>\<^verbatim>\<open>line.rfind(pat) != npos\<close>: \<open>pat\<close> occurs somewhere in the line.\<close>

fun contains :: "string \<Rightarrow> string \<Rightarrow> bool" where
  "contains pat [] = (pat = [])"
| "contains pat (c # cs) = (starts_with pat (c # cs) \<or> contains pat cs)"

text \<open>\<^verbatim>\<open>E n nvertices nparticles\<close>\<close>

definition parse_E :: "string \<Rightarrow> (string \<times> int \<times> int \<times> int) option" where
  "parse_E line = do {
     (label, r0) \<leftarrow> get_string line;
     (iEvt, r1) \<leftarrow> get_int r0;
     (nVtx, r2) \<leftarrow> get_int r1;
     (nPar, r3) \<leftarrow> get_int r2;
     Some (label, iEvt, nVtx, nPar)
   }"

text \<open>\<^verbatim>\<open>P n nv pdgid px py pz e mass status\<close>\<close>

record track =
  label :: string
  parI :: int
  momI :: int
  pdgId :: int
  px :: real
  py :: real
  pz :: real
  en :: real
  mass :: real
  status :: int

definition parse_P :: "string \<Rightarrow> track option" where
  "parse_P line = do {
     (l, r0) \<leftarrow> get_string line;
     (n, r1) \<leftarrow> get_int r0;
     (m, r2) \<leftarrow> get_int r1;
     (i, r3) \<leftarrow> get_int r2;
     (x, r4) \<leftarrow> get_double r3;
     (y, r5) \<leftarrow> get_double r4;
     (z, r6) \<leftarrow> get_double r5;
     (e, r7) \<leftarrow> get_double r6;
     (ms, r8) \<leftarrow> get_double r7;
     (st, r9) \<leftarrow> get_int r8;
     Some \<lparr>label = l, parI = n, momI = m, pdgId = i, px = x, py = y, pz = z, en = e,
           mass = ms, status = st\<rparr>
   }"

subsection \<open>The particle list of one event\<close>

text \<open>Particle tuple: pdg id, status, mother index, 4-momentum.\<close>

type_synonym particle = "int \<times> int \<times> int \<times> PxPyPzE4D"

definition get0 :: "particle \<Rightarrow> int" where
  "get0 pV = fst pV"

definition get1 :: "particle \<Rightarrow> int" where
  "get1 pV = fst (snd pV)"

definition get2 :: "particle \<Rightarrow> int" where
  "get2 pV = fst (snd (snd pV))"

definition get3 :: "particle \<Rightarrow> PxPyPzE4D" where
  "get3 pV = snd (snd (snd pV))"

text \<open>The value-initialised element of \<^verbatim>\<open>parV(nPar)\<close>.\<close>

definition default_particle :: particle where
  "default_particle = (0, 0, 0, PxPyPzEVector 0 0 0 0)"

text \<open>\<^verbatim>\<open>std::get<1>(parV[i]) = 2\<close>\<close>

definition set_get1 :: "particle list \<Rightarrow> nat \<Rightarrow> int \<Rightarrow> particle list" where
  "set_get1 parV i s = parV[i := (get0 (parV ! i), s, get2 (parV ! i), get3 (parV ! i))]"

text \<open>The body of the particle loop after the checks (lines 72 to 74). Both indices
  are inside the list: \<open>iPar < nPar\<close>, and \<open>0 < momI < parI = iPar + 1\<close>.\<close>

definition store_track :: "particle list \<Rightarrow> nat \<Rightarrow> track \<Rightarrow> particle list" where
  "store_track parV iPar t =
     (let parV1 = parV[iPar := (pdgId t, 1, momI t, PxPyPzEVector (px t) (py t) (pz t) (en t))]
      in if momI t > 0 then set_get1 parV1 (nat (momI t - 1)) 2 else parV1)"

datatype error = EventLineError | TrackLineError | LengthError

text \<open>The particle loop (lines 65 to 75): \<open>iPar\<close> counts the lines read so far, the
  result is the filled list and the lines not yet read.\<close>

fun read_particles ::
  "nat \<Rightarrow> nat \<Rightarrow> particle list \<Rightarrow> string list \<Rightarrow> error + (particle list \<times> string list)" where
  "read_particles iPar nPar parV [] =
     (if iPar < nPar then Inl TrackLineError else Inr (parV, []))"
| "read_particles iPar nPar parV (line # rest) =
     (if iPar < nPar then
        (case parse_P line of
           None \<Rightarrow> Inl TrackLineError
         | Some t \<Rightarrow>
             if label t \<noteq> ''P'' \<or> parI t \<noteq> int iPar + 1 \<or> momI t \<ge> parI t
             then Inl TrackLineError
             else read_particles (Suc iPar) nPar (store_track parV iPar t) rest)
      else Inr (parV, line # rest))"

text \<open>Lines 52 to 75: the event line has been read and begins with \<open>E \<close>; the unit
  line and the particle lines follow. A negative particle count makes the vector's
  constructor throw.\<close>

definition read_event :: "string \<Rightarrow> string list \<Rightarrow> error + (particle list \<times> string list)" where
  "read_event line rest =
     (case parse_E line of
        None \<Rightarrow> Inl EventLineError
      | Some (l, iEvt, nVtx, nPar) \<Rightarrow>
          if l \<noteq> ''E'' then Inl EventLineError
          else (case rest of
                  [] \<Rightarrow> Inl EventLineError
                | uline # rest1 \<Rightarrow>
                    (case get_string uline of
                       None \<Rightarrow> Inl EventLineError
                     | Some (u, r) \<Rightarrow>
                         if u \<noteq> ''U'' then Inl EventLineError
                         else if nPar < 0 then Inl LengthError
                         else read_particles 0 (nat nPar)
                                (replicate (nat nPar) default_particle) rest1)))"

subsection \<open>The fake photons\<close>

text \<open>Lines 78 to 81: the sum over the particles still at status 1, kept in
  \<^verbatim>\<open>PxPyPzM4D\<close> coordinates.\<close>

definition sum_final :: "particle list \<Rightarrow> PxPyPzM4D" where
  "sum_final parV =
     foldl (\<lambda>p4 pV. if get1 pV = 1 then M4D_add_E4D p4 (get3 pV) else p4)
       (PxPyPzMVector 0 0 0 0) parV"

text \<open>\<^verbatim>\<open>parV.emplace(pos, ...)\<close> constructs the element in front of position
  \<open>pos\<close>; \<^verbatim>\<open>parV.begin()\<close> is position 0.\<close>

definition emplace :: "nat \<Rightarrow> 'a \<Rightarrow> 'a list \<Rightarrow> 'a list" where
  "emplace pos x xs = take pos xs @ x # drop pos xs"

text \<open>The record both \<^verbatim>\<open>emplace\<close> calls construct: photon code 22, status -1,
  mother 0 and the massless vector \<^verbatim>\<open>PxPyPzMVector(0, 0, z, 0)\<close>, which the tuple
  stores in \<^verbatim>\<open>PxPyPzE4D\<close> coordinates.\<close>

definition fake_photon :: "real \<Rightarrow> particle" where
  "fake_photon z = (22, - 1, 0, E4D_of_M4D (PxPyPzMVector 0 0 z 0))"

definition add_fake_photons :: "particle list \<Rightarrow> particle list" where
  "add_fake_photons parV =
     (let p4 = sum_final parV;
          parV1 = emplace 0 (fake_photon ((mZ p4 + M4D_E p4) / 2)) parV;
          parV2 = emplace 0 (fake_photon ((mZ p4 - M4D_E p4) / 2)) parV1
      in parV2)"

subsection \<open>Writing\<close>

text \<open>A line of the output file. The texts are kept as they are; a line with numbers
  keeps the numbers: the two beam energies, the two cross sections, the particle count
  of an event, and for a particle its pdg id, status, the two mother columns and px, py,
  pz, energy and mass.\<close>

datatype out_line =
    Raw string
  | InitBeams real real
  | InitXsec real real
  | EventHead nat
  | ParticleLine int int "int \<times> int" real real real real real

text \<open>Line 93, the two mother columns \<^verbatim>\<open>momS\<close> as a pair of numbers. The sum
  \<open>m + 2\<close> is taken in the integers: \<open>m\<close> is below the particle's position, so the
  sum leaves the 32-bit range only in an event of more than two thousand million
  particles.\<close>

definition momS :: "int \<Rightarrow> int \<Rightarrow> int \<times> int" where
  "momS st m = (if st > 0 then (if m = 0 then (1, 2) else (m + 2, 0)) else (0, 0))"

definition particle_out :: "particle \<Rightarrow> out_line" where
  "particle_out pV =
     ParticleLine (get0 pV) (get1 pV) (momS (get1 pV) (get2 pV))
       (eX (get3 pV)) (eY (get3 pV)) (eZ (get3 pV)) (eT (get3 pV)) (E4D_M (get3 pV))"

definition write_event :: "particle list \<Rightarrow> out_line list" where
  "write_event parV =
     Raw ''<event>'' # EventHead (length parV) # map particle_out parV @ [Raw ''</event>'']"

subsection \<open>Vocabulary of the specification\<close>

text \<open>The total 4-vector \<open>T\<close> of the specification: the component-wise sum of the
  momenta of the particles whose status is FINAL (1).\<close>

definition final_momenta :: "particle list \<Rightarrow> PxPyPzE4D list" where
  "final_momenta parV = map get3 (filter (\<lambda>pV. get1 pV = 1) parV)"

definition final_total :: "particle list \<Rightarrow> PxPyPzE4D" where
  "final_total parV =
     PxPyPzEVector (sum_list (map eX (final_momenta parV))) (sum_list (map eY (final_momenta parV)))
       (sum_list (map eZ (final_momenta parV))) (sum_list (map eT (final_momenta parV)))"

definition E4D_plus :: "PxPyPzE4D \<Rightarrow> PxPyPzE4D \<Rightarrow> PxPyPzE4D" where
  "E4D_plus a b = PxPyPzEVector (eX a + eX b) (eY a + eY b) (eZ a + eZ b) (eT a + eT b)"

text \<open>The vector sum of the first two records of the list that is written.\<close>

definition photon_total :: "particle list \<Rightarrow> PxPyPzE4D" where
  "photon_total parV =
     E4D_plus (get3 (add_fake_photons parV ! 0)) (get3 (add_fake_photons parV ! 1))"

text \<open>Photon A and photon B as the specification writes them, from \<open>T\<close>.\<close>

definition photon_A_spec :: "PxPyPzE4D \<Rightarrow> particle" where
  "photon_A_spec T =
     (22, - 1, 0, PxPyPzEVector 0 0 ((eZ T + eT T) / 2) ((eZ T + eT T) / 2))"

definition photon_B_spec :: "PxPyPzE4D \<Rightarrow> particle" where
  "photon_B_spec T =
     (22, - 1, 0, PxPyPzEVector 0 0 ((eZ T - eT T) / 2) (- ((eZ T - eT T) / 2)))"

definition nonneg_final_energies :: "particle list \<Rightarrow> bool" where
  "nonneg_final_energies parV = list_all (\<lambda>v. 0 \<le> eT v) (final_momenta parV)"

text \<open>The columns of a written particle line.\<close>

fun out_status :: "out_line \<Rightarrow> int option" where
  "out_status (ParticleLine i st ms x y z e m) = Some st"
| "out_status l = None"

fun out_parents :: "out_line \<Rightarrow> (int \<times> int) option" where
  "out_parents (ParticleLine i st ms x y z e m) = Some ms"
| "out_parents l = None"

fun is_particle_line :: "out_line \<Rightarrow> bool" where
  "is_particle_line (ParticleLine i st ms x y z e m) = True"
| "is_particle_line l = False"

text \<open>An event block of the output for \<open>k\<close> declared particles: the opening tag, the
  count \<open>k + 2\<close>, exactly \<open>k + 2\<close> particle lines and the closing tag.\<close>

definition is_event_block :: "nat \<Rightarrow> out_line list \<Rightarrow> bool" where
  "is_event_block k blk =
     (length blk = k + 5 \<and> blk ! 0 = Raw ''<event>'' \<and> blk ! 1 = EventHead (k + 2) \<and>
      list_all is_particle_line (take (k + 2) (drop 2 blk)) \<and>
      blk ! (k + 4) = Raw ''</event>'')"

subsection \<open>Well-formed listings\<close>

text \<open>A particle line that passes the checks of line 69 as line number \<open>iPar\<close>
  (counted from 0) of its event.\<close>

definition track_ok :: "nat \<Rightarrow> string \<Rightarrow> bool" where
  "track_ok iPar line =
     (case parse_P line of
        None \<Rightarrow> False
      | Some t \<Rightarrow> label t = ''P'' \<and> parI t = int iPar + 1 \<and> momI t < parI t)"

fun tracks_ok :: "nat \<Rightarrow> string list \<Rightarrow> bool" where
  "tracks_ok iPar [] = True"
| "tracks_ok iPar (line # rest) = (track_ok iPar line \<and> tracks_ok (Suc iPar) rest)"

text \<open>The list the particle loop leaves behind when every line passes.\<close>

fun store_tracks :: "nat \<Rightarrow> particle list \<Rightarrow> string list \<Rightarrow> particle list" where
  "store_tracks iPar parV [] = parV"
| "store_tracks iPar parV (line # rest) =
     store_tracks (Suc iPar) (store_track parV iPar (the (parse_P line))) rest"

text \<open>The line declares the particle at position \<open>j\<close> (counted from 0, so index
  \<open>j + 1\<close> of the listing) as its parent.\<close>

definition declares_parent :: "nat \<Rightarrow> string \<Rightarrow> bool" where
  "declares_parent j line =
     (case parse_P line of None \<Rightarrow> False | Some t \<Rightarrow> momI t = int j + 1)"

text \<open>The particle count an event line declares.\<close>

definition nPar_of :: "string \<Rightarrow> int" where
  "nPar_of line = (case parse_E line of None \<Rightarrow> 0 | Some (l, iEvt, nVtx, nPar) \<Rightarrow> nPar)"

definition header_ok :: "string \<Rightarrow> bool" where
  "header_ok line =
     (\<not> contains ''END_EVENT_LISTING'' line \<and> starts_with ''E '' line \<and>
      (case parse_E line of
         None \<Rightarrow> False
       | Some (l, iEvt, nVtx, nPar) \<Rightarrow> l = ''E'' \<and> 0 \<le> nPar))"

definition units_ok :: "string \<Rightarrow> bool" where
  "units_ok line = (case get_string line of None \<Rightarrow> False | Some (u, r) \<Rightarrow> u = ''U'')"

text \<open>A listing is cut into segments: a line that the main loop passes over (it
  neither begins with \<open>E \<close> nor holds the end marker), or an event: its event line,
  its unit line and its particle lines.\<close>

datatype segment = Skipped string | EventBlock string string "string list"

fun lines_of :: "segment \<Rightarrow> string list" where
  "lines_of (Skipped l) = [l]"
| "lines_of (EventBlock e u ps) = e # u # ps"

fun segment_ok :: "segment \<Rightarrow> bool" where
  "segment_ok (Skipped l) =
     (\<not> contains ''END_EVENT_LISTING'' l \<and> \<not> starts_with ''E '' l)"
| "segment_ok (EventBlock e u ps) =
     (header_ok e \<and> nPar_of e = int (length ps) \<and> units_ok u \<and> tracks_ok 0 ps)"

fun declared_counts :: "segment list \<Rightarrow> nat list" where
  "declared_counts [] = []"
| "declared_counts (Skipped l # segs) = declared_counts segs"
| "declared_counts (EventBlock e u ps # segs) = nat (nPar_of e) # declared_counts segs"

text \<open>The particle list of a well-formed event and what a segment adds to the
  output.\<close>

definition event_particles :: "string list \<Rightarrow> particle list" where
  "event_particles ps = store_tracks 0 (replicate (length ps) default_particle) ps"

fun segment_out :: "segment \<Rightarrow> out_line list" where
  "segment_out (Skipped l) = []"
| "segment_out (EventBlock e u ps) = write_event (add_fake_photons (event_particles ps))"

fun event_blocks :: "segment list \<Rightarrow> out_line list list" where
  "event_blocks [] = []"
| "event_blocks (Skipped l # segs) = event_blocks segs"
| "event_blocks (EventBlock e u ps # segs) =
     write_event (add_fake_photons (event_particles ps)) # event_blocks segs"

text \<open>What follows the last segment: nothing, or a line with the end marker and
  anything after it.\<close>

definition listing_end :: "string list \<Rightarrow> bool" where
  "listing_end tail =
     (case tail of [] \<Rightarrow> True | l # ls \<Rightarrow> contains ''END_EVENT_LISTING'' l)"

subsection \<open>The main loop\<close>

lemma read_particles_rest:
  "read_particles iPar nPar parV lines = Inr (parV', rest) \<Longrightarrow> length rest \<le> length lines"
  by (induction lines arbitrary: iPar parV)
     (auto split: if_splits option.splits simp: le_SucI)

lemma read_event_rest:
  "read_event line lines = Inr (parV', rest) \<Longrightarrow> length rest \<le> length lines"
  unfolding read_event_def
  by (auto split: if_splits option.splits list.splits dest!: read_particles_rest)

text \<open>Lines 47 to 98. The result is what has been written and the exception, if one
  was thrown; an event is written once all its particle lines have been read.\<close>

function convert_events :: "string list \<Rightarrow> out_line list \<times> error option" where
  "convert_events [] = ([], None)"
| "convert_events (line # rest) =
     (if contains ''END_EVENT_LISTING'' line then ([], None)
      else if \<not> starts_with ''E '' line then convert_events rest
      else (case read_event line rest of
              Inl e \<Rightarrow> ([], Some e)
            | Inr (parV, rest') \<Rightarrow>
                (case convert_events rest' of
                   (out, err) \<Rightarrow> (write_event (add_fake_photons parV) @ out, err))))"
  by pat_completeness auto
termination
  by (relation "measure length") (auto dest!: read_event_rest)

text \<open>Lines 29 to 41: the envelope and the init block.\<close>

definition lhe_header :: "real \<Rightarrow> real \<Rightarrow> real \<Rightarrow> real \<Rightarrow> out_line list" where
  "lhe_header beamE1 beamE2 fidxsec totxsec =
     [Raw ''<LesHouchesEvents version=\"3.0\">'',
      Raw ''<!-- '', Raw '' #Converted from UPCGEN generator HEPMC output '', Raw ''-->'',
      Raw ''<header>'', Raw ''</header>'', Raw ''<init>'',
      InitBeams beamE1 beamE2, InitXsec fidxsec totxsec, Raw ''</init>'']"

text \<open>The whole run on an opened input file, with the cross sections as they stand
  after the side file has been tried. The closing tag is written when the loop ends
  without an exception.\<close>

definition convert_UGHEPMC2LHE ::
  "string list \<Rightarrow> real \<Rightarrow> real \<Rightarrow> real \<Rightarrow> real \<Rightarrow> out_line list \<times> error option" where
  "convert_UGHEPMC2LHE inFile beamE1 beamE2 fidxsec totxsec =
     (case convert_events inFile of
        (out, Some e) \<Rightarrow> (lhe_header beamE1 beamE2 fidxsec totxsec @ out, Some e)
      | (out, None) \<Rightarrow>
          (lhe_header beamE1 beamE2 fidxsec totxsec @ out @ [Raw ''</LesHouchesEvents>''],
           None))"

subsection \<open>Example listings\<close>

text \<open>The particle lines of an event with a decayed particle and its two daughters
  (the status column of the first says 1, that of the second says 2), the list the
  particle loop builds from them, and the single electron of the specification's
  example.\<close>

definition example_tracks :: "string list" where
  "example_tracks =
     [''P 1 0 23 0 0 0 91 91 1'', ''P 2 1 11 0 0 45 45 0 2'', ''P 3 1 -11 0 0 -45 45 0 1'']"

definition example_particles :: "particle list" where
  "example_particles =
     [(23, 2, 0, PxPyPzEVector 0 0 0 91), (11, 1, 1, PxPyPzEVector 0 0 45 45),
      (- 11, 1, 1, PxPyPzEVector 0 0 (- 45) 45)]"

definition electron_track :: string where
  "electron_track = ''P 1 0 11 0 0 10 10.511 0.000511 1''"

definition example_segments :: "segment list" where
  "example_segments =
     [Skipped ''HepMC::Version 2.06.09'', Skipped ''HepMC::IO_GenEvent-START_EVENT_LISTING'',
      EventBlock ''E 1 0 3'' ''U GEV MM'' example_tracks,
      EventBlock ''E 2 0 1'' ''U GEV MM'' [electron_track]]"


section \<open>Properties\<close>

subsection \<open>Energy and mass in the two coordinate systems\<close>

lemma M4D_M2_of_E4D: "M4D_M2 (M4D_of_E4D v) = E4D_M2 v"
proof (cases "E4D_M2 v \<ge> 0")
  case True
  then show ?thesis by (simp add: M4D_M2_def M4D_of_E4D_def E4D_M_def)
next
  case False
  then have neg: "E4D_M2 v < 0" by simp
  then have "sqrt (- E4D_M2 v) > 0" by simp
  then have "\<not> 0 \<le> - sqrt (- E4D_M2 v)" by linarith
  with neg show ?thesis by (simp add: M4D_M2_def M4D_of_E4D_def E4D_M_def)
qed

lemma M4D_P2_of_E4D: "M4D_P2 (M4D_of_E4D v) = eX v * eX v + eY v * eY v + eZ v * eZ v"
  by (simp add: M4D_P2_def M4D_of_E4D_def)

lemma M4D_E2_of_E4D: "M4D_E2 (M4D_of_E4D v) = eT v * eT v"
proof -
  have "M4D_P2 (M4D_of_E4D v) + M4D_M2 (M4D_of_E4D v) = eT v * eT v"
    by (simp add: M4D_M2_of_E4D M4D_P2_of_E4D E4D_M2_def)
  moreover have "0 \<le> eT v * eT v" by simp
  ultimately show ?thesis
    unfolding M4D_E2_def Let_def by (metis less_eq_real_def)
qed

lemma M4D_E_of_E4D: "M4D_E (M4D_of_E4D v) = \<bar>eT v\<bar>"
  by (simp add: M4D_E_def M4D_E2_of_E4D)

lemma M4D_E_nonneg: "0 \<le> M4D_E v"
  by (simp add: M4D_E_def M4D_E2_def Let_def)

lemma M4D_E_add: "M4D_E (M4D_add_E4D p q) = \<bar>M4D_E p + eT q\<bar>"
  by (simp add: M4D_add_E4D_def M4D_E_of_E4D PxPyPzEVector_def)

lemma M4D_xyz_add:
  "mX (M4D_add_E4D p q) = mX p + eX q"
  "mY (M4D_add_E4D p q) = mY p + eY q"
  "mZ (M4D_add_E4D p q) = mZ p + eZ q"
  by (simp_all add: M4D_add_E4D_def M4D_of_E4D_def PxPyPzEVector_def)

lemma M4D_E_massless: "M4D_E (PxPyPzMVector 0 0 z 0) = \<bar>z\<bar>"
  by (simp add: M4D_E_def M4D_E2_def M4D_P2_def M4D_M2_def PxPyPzMVector_def Let_def)

lemma M4D_E_zero: "M4D_E (PxPyPzMVector 0 0 0 0) = 0"
  by (simp add: M4D_E_massless)

subsection \<open>The photon construction\<close>

lemma fake_photon_sel:
  "get0 (fake_photon z) = 22" "get1 (fake_photon z) = - 1" "get2 (fake_photon z) = 0"
  "eX (get3 (fake_photon z)) = 0" "eY (get3 (fake_photon z)) = 0"
  "eZ (get3 (fake_photon z)) = z" "eT (get3 (fake_photon z)) = \<bar>z\<bar>"
  by (simp_all add: fake_photon_def get0_def get1_def get2_def get3_def E4D_of_M4D_def
      M4D_E_massless) (simp_all add: PxPyPzMVector_def)

lemma fake_photon_eq: "fake_photon z = (22, - 1, 0, PxPyPzEVector 0 0 z \<bar>z\<bar>)"
  by (simp add: fake_photon_def E4D_of_M4D_def M4D_E_massless PxPyPzEVector_def)
     (simp add: PxPyPzMVector_def)

lemma fake_photon_mass: "E4D_M (get3 (fake_photon z)) = 0"
  by (simp add: E4D_M_def E4D_M2_def fake_photon_sel)

lemma particle_out_fake_photon:
  "particle_out (fake_photon z) = ParticleLine 22 (- 1) (0, 0) 0 0 z \<bar>z\<bar> 0"
  by (simp add: particle_out_def fake_photon_sel fake_photon_mass momS_def)

lemma out_parents_particle_out:
  "out_parents (particle_out (i, st, m, v)) = Some (momS st m)"
  by (simp add: particle_out_def get1_def get2_def)

lemma add_fake_photons_eq:
  "add_fake_photons parV =
     fake_photon ((mZ (sum_final parV) - M4D_E (sum_final parV)) / 2) #
     fake_photon ((mZ (sum_final parV) + M4D_E (sum_final parV)) / 2) # parV"
  by (simp add: add_fake_photons_def emplace_def Let_def)

lemma foldl_final_Z:
  "mZ (foldl (\<lambda>p4 pV. if get1 pV = 1 then M4D_add_E4D p4 (get3 pV) else p4) acc parV) =
     mZ acc + sum_list (map eZ (final_momenta parV))"
  by (induction parV arbitrary: acc) (simp_all add: final_momenta_def M4D_xyz_add)

lemma foldl_final_E:
  "list_all (\<lambda>v. 0 \<le> eT v) (final_momenta parV) \<Longrightarrow>
   M4D_E (foldl (\<lambda>p4 pV. if get1 pV = 1 then M4D_add_E4D p4 (get3 pV) else p4) acc parV) =
     M4D_E acc + sum_list (map eT (final_momenta parV))"
proof (induction parV arbitrary: acc)
  case Nil
  then show ?case by (simp add: final_momenta_def)
next
  case (Cons pV parV)
  show ?case
  proof (cases "get1 pV = 1")
    case True
    with Cons.prems have e: "0 \<le> eT (get3 pV)"
      and rest: "list_all (\<lambda>v. 0 \<le> eT v) (final_momenta parV)"
      by (simp_all add: final_momenta_def)
    have "M4D_E (M4D_add_E4D acc (get3 pV)) = M4D_E acc + eT (get3 pV)"
      using e M4D_E_nonneg [of acc] by (simp add: M4D_E_add)
    with True Cons.IH [OF rest, of "M4D_add_E4D acc (get3 pV)"] show ?thesis
      by (simp add: final_momenta_def)
  next
    case False
    with Cons.prems have rest: "list_all (\<lambda>v. 0 \<le> eT v) (final_momenta parV)"
      by (simp add: final_momenta_def)
    with False Cons.IH [OF rest, of acc] show ?thesis
      by (simp add: final_momenta_def)
  qed
qed

lemma sum_final_Z: "mZ (sum_final parV) = eZ (final_total parV)"
  by (simp add: sum_final_def foldl_final_Z final_total_def PxPyPzEVector_def)
     (simp add: PxPyPzMVector_def)

lemma sum_final_E:
  "nonneg_final_energies parV \<Longrightarrow> M4D_E (sum_final parV) = eT (final_total parV)"
  by (simp add: sum_final_def foldl_final_E nonneg_final_energies_def M4D_E_zero
      final_total_def PxPyPzEVector_def)

lemma write_event_eq:
  "write_event (add_fake_photons parV) =
     Raw ''<event>'' # EventHead (length parV + 2) #
     particle_out (fake_photon ((mZ (sum_final parV) - M4D_E (sum_final parV)) / 2)) #
     particle_out (fake_photon ((mZ (sum_final parV) + M4D_E (sum_final parV)) / 2)) #
     map particle_out parV @ [Raw ''</event>'']"
  by (simp add: write_event_def add_fake_photons_def emplace_def Let_def)

lemma write_event_nth:
  assumes "j < length parV"
  shows "write_event (add_fake_photons parV) ! (j + 4) = particle_out (parV ! j)"
proof -
  have "j + 4 = Suc (Suc (Suc (Suc j)))" by simp
  with assms show ?thesis
    by (simp only: write_event_eq nth_Cons_Suc) (simp add: nth_append)
qed

lemma write_event_photons:
  "write_event (add_fake_photons parV) ! 2 =
     particle_out (fake_photon ((mZ (sum_final parV) - M4D_E (sum_final parV)) / 2))"
  "write_event (add_fake_photons parV) ! 3 =
     particle_out (fake_photon ((mZ (sum_final parV) + M4D_E (sum_final parV)) / 2))"
  by (simp_all add: write_event_eq numeral_2_eq_2 numeral_3_eq_3)

subsection \<open>The particle loop\<close>

lemma read_particles_done: "read_particles n n parV lines = Inr (parV, lines)"
  by (cases lines) simp_all

lemma read_particles_ok:
  "tracks_ok k ps \<Longrightarrow> k + length ps = n \<Longrightarrow>
   read_particles k n parV (ps @ rest) = Inr (store_tracks k parV ps, rest)"
proof (induction ps arbitrary: k parV)
  case Nil
  then show ?case by (simp add: read_particles_done)
next
  case (Cons l ls)
  from Cons.prems obtain t where t: "parse_P l = Some t" "label t = ''P''"
      "parI t = int k + 1" "momI t < parI t" and ls: "tracks_ok (Suc k) ls"
    by (auto simp: track_ok_def split: option.splits)
  from Cons.prems have k: "k < n" "Suc k + length ls = n" by simp_all
  from Cons.IH [OF ls k(2)] t k(1) show ?case by simp
qed

lemma read_particles_bad:
  "tracks_ok k ps \<Longrightarrow> k + length ps < n \<Longrightarrow> \<not> track_ok (k + length ps) b \<Longrightarrow>
   read_particles k n parV (ps @ b # post) = Inl TrackLineError"
proof (induction ps arbitrary: k parV)
  case Nil
  then show ?case by (auto simp: track_ok_def split: option.splits)
next
  case (Cons l ls)
  from Cons.prems obtain t where t: "parse_P l = Some t" "label t = ''P''"
      "parI t = int k + 1" "momI t < parI t" and ls: "tracks_ok (Suc k) ls"
    by (auto simp: track_ok_def split: option.splits)
  from Cons.prems have k: "k < n" "Suc k + length ls < n" "\<not> track_ok (Suc k + length ls) b"
    by simp_all
  from Cons.IH [OF ls k(2,3)] t k(1) show ?case by simp
qed

lemma read_particles_Inr:
  "read_particles k n parV lines = Inr (parV', rest) \<Longrightarrow> k \<le> n \<Longrightarrow>
   \<exists>ps. lines = ps @ rest \<and> length ps = n - k \<and> tracks_ok k ps \<and>
        parV' = store_tracks k parV ps"
proof (induction lines arbitrary: k parV)
  case Nil
  then show ?case by (auto split: if_splits)
next
  case (Cons l ls)
  show ?case
  proof (cases "k < n")
    case False
    with Cons.prems show ?thesis by auto
  next
    case True
    with Cons.prems obtain t where t: "parse_P l = Some t" "label t = ''P''"
        "parI t = int k + 1" "momI t < parI t"
      and r: "read_particles (Suc k) n (store_track parV k t) ls = Inr (parV', rest)"
      by (auto split: option.splits if_splits)
    from True have "Suc k \<le> n" by simp
    from Cons.IH [OF r this] obtain ps where ps: "ls = ps @ rest" "length ps = n - Suc k"
        "tracks_ok (Suc k) ps" "parV' = store_tracks (Suc k) (store_track parV k t) ps"
      by blast
    with t True have "l # ls = (l # ps) @ rest \<and> length (l # ps) = n - k \<and>
        tracks_ok k (l # ps) \<and> parV' = store_tracks k parV (l # ps)"
      by (auto simp: track_ok_def)
    then show ?thesis by blast
  qed
qed

lemma track_ok_D:
  "track_ok k l \<Longrightarrow> \<exists>t. parse_P l = Some t \<and> label t = ''P'' \<and> parI t = int k + 1 \<and> momI t \<le> int k"
  by (auto simp: track_ok_def split: option.splits)

lemma tracks_ok_nth: "tracks_ok k ps \<Longrightarrow> i < length ps \<Longrightarrow> track_ok (k + i) (ps ! i)"
proof (induction ps arbitrary: k i)
  case Nil
  then show ?case by simp
next
  case (Cons l ls)
  show ?case
  proof (cases i)
    case 0
    with Cons.prems show ?thesis by simp
  next
    case (Suc i')
    with Cons.prems Cons.IH [of "Suc k" i'] show ?thesis by simp
  qed
qed

lemma store_track_length: "length (store_track parV k t) = length parV"
  by (simp add: store_track_def set_get1_def Let_def)

lemma store_track_nth:
  assumes "k < length parV" "momI t \<le> int k" "j < length parV"
  shows "store_track parV k t ! j =
     (if j = k then (pdgId t, 1, momI t, PxPyPzEVector (px t) (py t) (pz t) (en t))
      else if momI t = int j + 1 then (get0 (parV ! j), 2, get2 (parV ! j), get3 (parV ! j))
      else parV ! j)"
proof (cases "momI t > 0")
  case False
  with assms show ?thesis by (auto simp: store_track_def Let_def)
next
  case True
  with assms have m: "nat (momI t - 1) < k" "nat (momI t - 1) < length parV" by linarith+
  have eq: "nat (momI t - 1) = j \<longleftrightarrow> momI t = int j + 1" using True by linarith
  from True assms m show ?thesis
    by (auto simp: store_track_def set_get1_def Let_def nth_list_update eq)
qed

lemma store_tracks_length: "length (store_tracks k parV ps) = length parV"
  by (induction ps arbitrary: k parV) (simp_all add: store_track_length)

lemma particle_eta: "(get0 p, get1 p, get2 p, get3 p) = p"
  by (simp add: get0_def get1_def get2_def get3_def)

lemma store_tracks_nth:
  "tracks_ok k ps \<Longrightarrow> k + length ps \<le> length parV \<Longrightarrow> j < length parV \<Longrightarrow>
   store_tracks k parV ps ! j =
     (if j < k then
        (get0 (parV ! j), if list_ex (declares_parent j) ps then 2 else get1 (parV ! j),
         get2 (parV ! j), get3 (parV ! j))
      else if j < k + length ps then
        (pdgId (the (parse_P (ps ! (j - k)))),
         if list_ex (declares_parent j) ps then 2 else 1,
         momI (the (parse_P (ps ! (j - k)))),
         PxPyPzEVector (px (the (parse_P (ps ! (j - k))))) (py (the (parse_P (ps ! (j - k)))))
           (pz (the (parse_P (ps ! (j - k))))) (en (the (parse_P (ps ! (j - k))))))
      else parV ! j)"
proof (induction ps arbitrary: k parV)
  case Nil
  then show ?case by (simp add: particle_eta)
next
  case (Cons l ls)
  from Cons.prems(1) obtain t where t: "parse_P l = Some t" "momI t \<le> int k"
    and ls: "tracks_ok (Suc k) ls"
    using track_ok_D [of k l] by auto
  let ?pv = "store_track parV k t"
  from Cons.prems have k: "k < length parV" "Suc k + length ls \<le> length ?pv" "j < length ?pv"
    by (simp_all add: store_track_length)
  have dp: "declares_parent j l \<longleftrightarrow> momI t = int j + 1"
    by (simp add: declares_parent_def t)
  note nth = store_track_nth [OF k(1) t(2) Cons.prems(3)]
  note IH = Cons.IH [OF ls k(2,3)]
  consider "j < k" | "j = k" | "k < j"
    by linarith
  then show ?case
  proof cases
    case 1
    with IH nth t dp show ?thesis
      by (auto simp: get0_def get1_def get2_def get3_def)
  next
    case 2
    with t(2) have "\<not> declares_parent j l" unfolding dp by linarith
    with 2 IH nth t show ?thesis
      by (auto simp: get0_def get1_def get2_def get3_def)
  next
    case 3
    with t(2) have nd: "\<not> declares_parent j l" unfolding dp by linarith
    from 3 have "(l # ls) ! (j - k) = ls ! (j - Suc k)" by (simp add: nth_Cons')
    with 3 nd IH nth t show ?thesis
      by (auto simp: get0_def get1_def get2_def get3_def)
  qed
qed

lemma declares_parent_later:
  "tracks_ok k ps \<Longrightarrow> i < length ps \<Longrightarrow> declares_parent j (ps ! i) \<Longrightarrow> j < k + i"
proof (induction ps arbitrary: k i)
  case Nil
  then show ?case by simp
next
  case (Cons l ls)
  show ?case
  proof (cases i)
    case 0
    with Cons.prems track_ok_D [of k l] show ?thesis
      by (auto simp: declares_parent_def)
  next
    case (Suc i')
    with Cons.prems Cons.IH [of "Suc k" i'] show ?thesis by simp
  qed
qed

lemma list_ex_drop_later:
  assumes "tracks_ok 0 ps"
  shows "list_ex (declares_parent j) (drop (Suc j) ps) = list_ex (declares_parent j) ps"
proof -
  have "list_ex (declares_parent j) ps \<Longrightarrow> list_ex (declares_parent j) (drop (Suc j) ps)"
  proof -
    assume "list_ex (declares_parent j) ps"
    then obtain i where i: "i < length ps" "declares_parent j (ps ! i)"
      by (auto simp: list_ex_iff in_set_conv_nth)
    with declares_parent_later [OF assms i] have "Suc j \<le> i" by simp
    with i have "drop (Suc j) ps ! (i - Suc j) = ps ! i" "i - Suc j < length (drop (Suc j) ps)"
      by simp_all
    then have "ps ! i \<in> set (drop (Suc j) ps)"
      by (metis nth_mem)
    with i(2) show ?thesis by (auto simp: list_ex_iff)
  qed
  moreover have "list_ex (declares_parent j) (drop (Suc j) ps) \<Longrightarrow> list_ex (declares_parent j) ps"
    by (auto simp: list_ex_iff dest: in_set_dropD)
  ultimately show ?thesis by blast
qed

lemma event_particles_nth:
  assumes "tracks_ok 0 ps" "j < length ps"
  shows "event_particles ps ! j =
     (pdgId (the (parse_P (ps ! j))),
      if list_ex (declares_parent j) ps then 2 else 1,
      momI (the (parse_P (ps ! j))),
      PxPyPzEVector (px (the (parse_P (ps ! j)))) (py (the (parse_P (ps ! j))))
        (pz (the (parse_P (ps ! j)))) (en (the (parse_P (ps ! j)))))"
  using store_tracks_nth [OF assms(1), of "replicate (length ps) default_particle" j] assms(2)
  by (simp add: event_particles_def)

lemma read_particles_event:
  assumes "read_particles 0 n (replicate n default_particle) lines = Inr (parV, rest)"
  shows "tracks_ok 0 (take n lines)" and "length (take n lines) = n"
    and "parV = event_particles (take n lines)" and "length parV = n"
proof -
  from read_particles_Inr [OF assms] obtain ps where ps: "lines = ps @ rest" "length ps = n"
      "tracks_ok 0 ps" "parV = store_tracks 0 (replicate n default_particle) ps"
    by auto
  then have tk: "take n lines = ps" by simp
  from ps(2,4) have "parV = event_particles ps" "length parV = n"
    by (simp_all add: event_particles_def store_tracks_length)
  with ps(2,3) show "tracks_ok 0 (take n lines)" and "length (take n lines) = n"
    and "parV = event_particles (take n lines)" and "length parV = n"
    unfolding tk by simp_all
qed

lemma emitted_line:
  assumes "read_particles 0 n (replicate n default_particle) lines = Inr (parV, rest)"
    and "j < n"
  shows "\<exists>t. parse_P (lines ! j) = Some t \<and>
           write_event (add_fake_photons parV) ! (j + 4) =
             particle_out (pdgId t,
               if list_ex (declares_parent j) (take n lines) then 2 else 1, momI t,
               PxPyPzEVector (px t) (py t) (pz t) (en t))"
proof -
  let ?ps = "take n lines"
  note ps = read_particles_event [OF assms(1)]
  from assms(2) ps(2) have jl: "j < length ?ps" and nth: "?ps ! j = lines ! j" by simp_all
  from tracks_ok_nth [OF ps(1) jl] obtain t where t: "parse_P (lines ! j) = Some t"
    using track_ok_D [of j "lines ! j"] by (auto simp: nth)
  from assms(2) ps(4) have "write_event (add_fake_photons parV) ! (j + 4) =
      particle_out (parV ! j)"
    by (simp add: write_event_nth)
  also have "parV ! j = (pdgId t, if list_ex (declares_parent j) ?ps then 2 else 1, momI t,
      PxPyPzEVector (px t) (py t) (pz t) (en t))"
    unfolding ps(3) event_particles_nth [OF ps(1) jl] by (simp add: nth t)
  finally show ?thesis using t by blast
qed

subsection \<open>The main loop\<close>

lemma convert_events_skip:
  "\<not> contains ''END_EVENT_LISTING'' l \<Longrightarrow> \<not> starts_with ''E '' l \<Longrightarrow>
   convert_events (l # rest) = convert_events rest"
  by simp

lemma convert_events_end: "listing_end tail \<Longrightarrow> convert_events tail = ([], None)"
  by (cases tail) (simp_all add: listing_end_def)

lemma read_event_ok:
  assumes "header_ok e" "nPar_of e = int (length ps)" "units_ok u" "tracks_ok 0 ps"
  shows "read_event e (u # ps @ rest) = Inr (event_particles ps, rest)"
proof -
  from assms(1,2) obtain iEvt nVtx where e: "parse_E e = Some (''E'', iEvt, nVtx, int (length ps))"
    by (auto simp: header_ok_def nPar_of_def split: option.splits)
  from assms(3) obtain r where u: "get_string u = Some (''U'', r)"
    by (auto simp: units_ok_def split: option.splits)
  from read_particles_ok [OF assms(4), of "length ps" "replicate (length ps) default_particle" rest]
  have "read_particles 0 (length ps) (replicate (length ps) default_particle) (ps @ rest) =
      Inr (event_particles ps, rest)"
    by (simp add: event_particles_def)
  with e u show ?thesis by (simp add: read_event_def)
qed

lemma read_event_bad:
  assumes "header_ok e" "nPar_of e = int n" "units_ok u" "tracks_ok 0 ps" "length ps < n"
    "\<not> track_ok (length ps) b"
  shows "read_event e (u # ps @ b # post) = Inl TrackLineError"
proof -
  from assms(1,2) obtain iEvt nVtx where e: "parse_E e = Some (''E'', iEvt, nVtx, int n)"
    by (auto simp: header_ok_def nPar_of_def split: option.splits)
  from assms(3) obtain r where u: "get_string u = Some (''U'', r)"
    by (auto simp: units_ok_def split: option.splits)
  from read_particles_bad [OF assms(4), of n b "replicate n default_particle" post] assms(5,6)
  have "read_particles 0 n (replicate n default_particle) (ps @ b # post) = Inl TrackLineError"
    by simp
  with e u show ?thesis by (simp add: read_event_def)
qed

lemma convert_events_event:
  assumes "segment_ok (EventBlock e u ps)"
  shows "convert_events (e # u # ps @ rest) =
     (write_event (add_fake_photons (event_particles ps)) @ fst (convert_events rest),
      snd (convert_events rest))"
proof -
  from assms have h: "header_ok e" "nPar_of e = int (length ps)" "units_ok u" "tracks_ok 0 ps"
    by simp_all
  from h(1) have m: "\<not> contains ''END_EVENT_LISTING'' e" "starts_with ''E '' e"
    by (simp_all add: header_ok_def)
  from read_event_ok [OF h] m show ?thesis
    by (simp add: case_prod_beta)
qed

lemma convert_events_segments:
  "list_all segment_ok segs \<Longrightarrow>
   convert_events (concat (map lines_of segs) @ rest) =
     (concat (map segment_out segs) @ fst (convert_events rest), snd (convert_events rest))"
proof (induction segs)
  case Nil
  then show ?case by simp
next
  case (Cons sg segs)
  then have IH: "convert_events (concat (map lines_of segs) @ rest) =
     (concat (map segment_out segs) @ fst (convert_events rest), snd (convert_events rest))"
    and ok: "segment_ok sg" by simp_all
  show ?case
  proof (cases sg)
    case (Skipped l)
    with ok IH show ?thesis by simp
  next
    case (EventBlock e u ps)
    with ok have "convert_events (e # u # ps @ concat (map lines_of segs) @ rest) =
       (write_event (add_fake_photons (event_particles ps)) @
          fst (convert_events (concat (map lines_of segs) @ rest)),
        snd (convert_events (concat (map lines_of segs) @ rest)))"
      by (intro convert_events_event) simp
    with EventBlock IH show ?thesis by simp
  qed
qed

lemma segment_out_blocks: "concat (map segment_out segs) = concat (event_blocks segs)"
  by (induction segs rule: event_blocks.induct) simp_all

lemma is_event_block_write:
  "is_event_block (length parV) (write_event (add_fake_photons parV))"
proof -
  have "list_all is_particle_line (map particle_out xs)" for xs
    by (induction xs) (simp_all add: particle_out_def)
  from this [of "add_fake_photons parV"] show ?thesis
    by (simp add: is_event_block_def write_event_def add_fake_photons_def emplace_def Let_def
        nth_append)
qed

lemma event_blocks_ok:
  "list_all segment_ok segs \<Longrightarrow> list_all2 is_event_block (declared_counts segs) (event_blocks segs)"
proof (induction segs rule: event_blocks.induct)
  case (3 e u ps segs)
  then have "nPar_of e = int (length ps)" by simp
  then have "nat (nPar_of e) = length (event_particles ps)"
    by (simp add: event_particles_def store_tracks_length)
  with 3 is_event_block_write [of "event_particles ps"] show ?case by simp
qed simp_all

subsection \<open>Evaluation of the example listings\<close>

lemmas extract_defs = get_string_def get_int_def get_double_def get_sign_def get_exponent_def
  isspace_def isdigit_def digits_val_def pow10_def parse_E_def parse_P_def

lemma example_parse:
  "parse_P ''P 1 0 23 0 0 0 91 91 1'' =
     Some \<lparr>label = ''P'', parI = 1, momI = 0, pdgId = 23, px = 0, py = 0, pz = 0, en = 91,
           mass = 91, status = 1\<rparr>"
  "parse_P ''P 2 1 11 0 0 45 45 0 2'' =
     Some \<lparr>label = ''P'', parI = 2, momI = 1, pdgId = 11, px = 0, py = 0, pz = 45, en = 45,
           mass = 0, status = 2\<rparr>"
  "parse_P ''P 3 1 -11 0 0 -45 45 0 1'' =
     Some \<lparr>label = ''P'', parI = 3, momI = 1, pdgId = - 11, px = 0, py = 0, pz = - 45, en = 45,
           mass = 0, status = 1\<rparr>"
  "parse_P ''P 1 0 11 0 0 10 10.511 0.000511 1'' =
     Some \<lparr>label = ''P'', parI = 1, momI = 0, pdgId = 11, px = 0, py = 0, pz = 10,
           en = 10511 / 1000, mass = 511 / 1000000, status = 1\<rparr>"
  by (simp_all add: extract_defs)

lemma example_tracks_ok: "tracks_ok 0 example_tracks" "tracks_ok 0 [electron_track]"
  by (simp_all add: example_tracks_def electron_track_def track_ok_def example_parse)

lemma example_read:
  "read_particles 0 3 (replicate 3 default_particle) example_tracks = Inr (example_particles, [])"
  by (simp add: example_tracks_def example_particles_def example_parse store_track_def
      set_get1_def default_particle_def get0_def get1_def get2_def get3_def numeral_3_eq_3)

lemma example_event_particles:
  "event_particles example_tracks = example_particles"
  "event_particles [electron_track] = [(11, 1, 0, PxPyPzEVector 0 0 10 (10511 / 1000))]"
  by (simp_all add: event_particles_def example_tracks_def example_particles_def
      electron_track_def example_parse store_track_def set_get1_def default_particle_def
      get0_def get1_def get2_def get3_def numeral_3_eq_3)

lemma example_headers:
  "header_ok ''E 1 0 3''" "nPar_of ''E 1 0 3'' = 3"
  "header_ok ''E 2 0 1''" "nPar_of ''E 2 0 1'' = 1"
  "header_ok ''E 2 0 2''" "nPar_of ''E 2 0 2'' = 2"
  "units_ok ''U GEV MM''"
  by (simp_all add: header_ok_def nPar_of_def units_ok_def extract_defs)

lemma example_segments_ok: "list_all segment_ok example_segments"
  by (simp add: example_segments_def example_headers example_tracks_ok)
     (simp add: example_tracks_def electron_track_def track_ok_def example_parse)

subsection \<open>The claims\<close>

text \<open>
  C1, as amended. The specification asks that the two photon momenta add up to the total
  \<open>T\<close> of the FINAL particles in all four components. Both photons are built with
  px = py = 0 and with the energy \<open>\<bar>pz\<bar>\<close>, so: the px and py of the photon sum are 0,
  its pz is \<open>T.pz\<close>, and the photon sum is \<open>T\<close> whenever the FINAL energies are not
  negative, \<open>T.px = T.py = 0\<close> and \<open>\<bar>T.pz\<bar> \<le> T.energy\<close>.
\<close>

theorem photon_sum:
  "eX (photon_total parV) = 0 \<and> eY (photon_total parV) = 0 \<and>
   eZ (photon_total parV) = eZ (final_total parV) \<and>
   (nonneg_final_energies parV \<and> eX (final_total parV) = 0 \<and> eY (final_total parV) = 0 \<and>
    \<bar>eZ (final_total parV)\<bar> \<le> eT (final_total parV) \<longrightarrow>
    photon_total parV = final_total parV)"
proof -
  let ?T = "final_total parV"
  let ?E = "M4D_E (sum_final parV)"
  have x: "eX (photon_total parV) = 0" and y: "eY (photon_total parV) = 0"
    and z: "eZ (photon_total parV) = eZ ?T"
    and t: "eT (photon_total parV) = \<bar>(eZ ?T - ?E) / 2\<bar> + \<bar>(eZ ?T + ?E) / 2\<bar>"
    by (simp_all add: photon_total_def E4D_plus_def PxPyPzEVector_def add_fake_photons_eq
        fake_photon_sel sum_final_Z field_simps)
  have "photon_total parV = ?T"
    if h: "nonneg_final_energies parV" "eX ?T = 0" "eY ?T = 0" "\<bar>eZ ?T\<bar> \<le> eT ?T"
  proof -
    have "?E = eT ?T" using h(1) by (rule sum_final_E)
    moreover have le: "eZ ?T \<le> eT ?T" "- eT ?T \<le> eZ ?T"
      using h(4) by linarith+
    have "\<bar>(eZ ?T - eT ?T) / 2\<bar> = - ((eZ ?T - eT ?T) / 2)"
      using le by (intro abs_of_nonpos) simp
    moreover have "\<bar>(eZ ?T + eT ?T) / 2\<bar> = (eZ ?T + eT ?T) / 2"
      using le by (intro abs_of_nonneg) simp
    ultimately have "eT (photon_total parV) = eT ?T" using t by (simp add: field_simps)
    with x y z h(2,3) show ?thesis by simp
  qed
  with x y z show ?thesis by blast
qed

theorem photon_sum_witness:
  "nonneg_final_energies [(11, 1, 0, PxPyPzEVector 0 0 10 (10511 / 1000))] \<and>
   eX (final_total [(11, 1, 0, PxPyPzEVector 0 0 10 (10511 / 1000))]) = 0 \<and>
   eY (final_total [(11, 1, 0, PxPyPzEVector 0 0 10 (10511 / 1000))]) = 0 \<and>
   \<bar>eZ (final_total [(11, 1, 0, PxPyPzEVector 0 0 10 (10511 / 1000))])\<bar>
     \<le> eT (final_total [(11, 1, 0, PxPyPzEVector 0 0 10 (10511 / 1000))]) \<and>
   photon_total [(11, 1, 0, PxPyPzEVector 0 0 10 (10511 / 1000))] =
     PxPyPzEVector 0 0 10 (10511 / 1000)"
  using photon_sum [of "[(11, 1, 0, PxPyPzEVector 0 0 10 (10511 / 1000))]"]
  by (simp add: nonneg_final_energies_def final_total_def final_momenta_def get1_def get3_def
      PxPyPzEVector_def)

text \<open>One final particle with px = 1: the photon sum has px = 0, the total has px = 1.\<close>

theorem photon_sum_counterexample:
  "read_event ''E 1 0 1'' [''U GEV MM'', ''P 1 0 11 1 0 0 1 0 1''] =
     Inr ([(11, 1, 0, PxPyPzEVector 1 0 0 1)], []) \<and>
   photon_total [(11, 1, 0, PxPyPzEVector 1 0 0 1)] \<noteq>
     final_total [(11, 1, 0, PxPyPzEVector 1 0 0 1)]"
proof -
  have "read_event ''E 1 0 1'' [''U GEV MM'', ''P 1 0 11 1 0 0 1 0 1''] =
     Inr ([(11, 1, 0, PxPyPzEVector 1 0 0 1)], [])"
    by (simp add: read_event_def extract_defs store_track_def default_particle_def)
  moreover have "eX (photon_total [(11, 1, 0, PxPyPzEVector 1 0 0 1)]) = 0"
    by (simp add: photon_total_def E4D_plus_def PxPyPzEVector_def add_fake_photons_eq
        fake_photon_sel)
  moreover have "eX (final_total [(11, 1, 0, PxPyPzEVector 1 0 0 1)]) = 1"
    by (simp add: final_total_def final_momenta_def get1_def get3_def PxPyPzEVector_def)
  ultimately show ?thesis by auto
qed

text \<open>
  C2, as amended. The two records are photon code 22, status INCOMING (-1), mother 0 and
  the momenta \<open>(0, 0, a, \<bar>a\<bar>)\<close> with \<open>a = (T.pz + E) / 2\<close> for photon A and
  \<open>(0, 0, b, \<bar>b\<bar>)\<close> with \<open>b = (T.pz - E) / 2\<close> for photon B, where \<open>E \<ge> 0\<close> is the
  energy of the accumulated total. When the FINAL energies are not negative and
  \<open>\<bar>T.pz\<bar> \<le> T.energy\<close>, they are the records of the specification.
\<close>

theorem fake_photon_records:
  "add_fake_photons parV ! 1 =
     (22, - 1, 0, PxPyPzEVector 0 0 ((eZ (final_total parV) + M4D_E (sum_final parV)) / 2)
        \<bar>(eZ (final_total parV) + M4D_E (sum_final parV)) / 2\<bar>) \<and>
   add_fake_photons parV ! 0 =
     (22, - 1, 0, PxPyPzEVector 0 0 ((eZ (final_total parV) - M4D_E (sum_final parV)) / 2)
        \<bar>(eZ (final_total parV) - M4D_E (sum_final parV)) / 2\<bar>) \<and>
   0 \<le> M4D_E (sum_final parV) \<and>
   (nonneg_final_energies parV \<and> \<bar>eZ (final_total parV)\<bar> \<le> eT (final_total parV) \<longrightarrow>
    add_fake_photons parV ! 1 = photon_A_spec (final_total parV) \<and>
    add_fake_photons parV ! 0 = photon_B_spec (final_total parV))"
proof -
  let ?T = "final_total parV"
  let ?E = "M4D_E (sum_final parV)"
  have a: "add_fake_photons parV ! 1 =
      (22, - 1, 0, PxPyPzEVector 0 0 ((eZ ?T + ?E) / 2) \<bar>(eZ ?T + ?E) / 2\<bar>)"
    by (simp add: add_fake_photons_eq fake_photon_eq sum_final_Z)
  have b: "add_fake_photons parV ! 0 =
      (22, - 1, 0, PxPyPzEVector 0 0 ((eZ ?T - ?E) / 2) \<bar>(eZ ?T - ?E) / 2\<bar>)"
    by (simp add: add_fake_photons_eq fake_photon_eq sum_final_Z)
  have "add_fake_photons parV ! 1 = photon_A_spec ?T \<and>
        add_fake_photons parV ! 0 = photon_B_spec ?T"
    if h: "nonneg_final_energies parV" "\<bar>eZ ?T\<bar> \<le> eT ?T"
  proof -
    have e: "?E = eT ?T" using h(1) by (rule sum_final_E)
    have le: "eZ ?T \<le> eT ?T" "- eT ?T \<le> eZ ?T"
      using h(2) by linarith+
    have m: "\<bar>(eZ ?T - eT ?T) / 2\<bar> = - ((eZ ?T - eT ?T) / 2)"
      using le by (intro abs_of_nonpos) simp
    have p: "\<bar>(eZ ?T + eT ?T) / 2\<bar> = (eZ ?T + eT ?T) / 2"
      using le by (intro abs_of_nonneg) simp
    have "add_fake_photons parV ! 1 = photon_A_spec ?T"
      by (simp only: a e p photon_A_spec_def)
    moreover have "add_fake_photons parV ! 0 = photon_B_spec ?T"
      by (simp only: b e m photon_B_spec_def)
    ultimately show ?thesis by (rule conjI)
  qed
  with a b M4D_E_nonneg [of "sum_final parV"] show ?thesis by blast
qed

theorem fake_photon_records_witness:
  "nonneg_final_energies [(11, 1, 0, PxPyPzEVector 0 0 10 (10511 / 1000))] \<and>
   \<bar>eZ (final_total [(11, 1, 0, PxPyPzEVector 0 0 10 (10511 / 1000))])\<bar>
     \<le> eT (final_total [(11, 1, 0, PxPyPzEVector 0 0 10 (10511 / 1000))]) \<and>
   add_fake_photons [(11, 1, 0, PxPyPzEVector 0 0 10 (10511 / 1000))] ! 1 =
     (22, - 1, 0, PxPyPzEVector 0 0 (20511 / 2000) (20511 / 2000)) \<and>
   add_fake_photons [(11, 1, 0, PxPyPzEVector 0 0 10 (10511 / 1000))] ! 0 =
     (22, - 1, 0, PxPyPzEVector 0 0 (- 511 / 2000) (511 / 2000))"
proof -
  let ?ev = "[(11, 1, 0, PxPyPzEVector 0 0 10 (10511 / 1000))] :: particle list"
  have T: "final_total ?ev = PxPyPzEVector 0 0 10 (10511 / 1000)"
    by (simp add: final_total_def final_momenta_def get1_def get3_def PxPyPzEVector_def)
  have h1: "nonneg_final_energies ?ev"
    by (simp add: nonneg_final_energies_def final_momenta_def get1_def get3_def
        PxPyPzEVector_def)
  have h2: "\<bar>eZ (final_total ?ev)\<bar> \<le> eT (final_total ?ev)"
    by (simp add: T) (simp add: PxPyPzEVector_def)
  from fake_photon_records [of ?ev] h1 h2
  have "add_fake_photons ?ev ! 1 = photon_A_spec (final_total ?ev)"
    and "add_fake_photons ?ev ! 0 = photon_B_spec (final_total ?ev)"
    by blast+
  moreover have "photon_A_spec (final_total ?ev) =
      (22, - 1, 0, PxPyPzEVector 0 0 (20511 / 2000) (20511 / 2000))"
    by (simp add: T photon_A_spec_def) (simp add: PxPyPzEVector_def)
  moreover have "photon_B_spec (final_total ?ev) =
      (22, - 1, 0, PxPyPzEVector 0 0 (- 511 / 2000) (511 / 2000))"
    by (simp add: T photon_B_spec_def) (simp add: PxPyPzEVector_def)
  ultimately show ?thesis using h1 h2 by simp
qed

text \<open>One final particle with pz = -10 and energy 1: the specification's photon A would
  have the energy -4.5; the record built has pz = -4.5 and energy 4.5.\<close>

theorem fake_photon_records_counterexample:
  "read_event ''E 1 0 1'' [''U GEV MM'', ''P 1 0 11 0 0 -10 1 0 1''] =
     Inr ([(11, 1, 0, PxPyPzEVector 0 0 (- 10) 1)], []) \<and>
   photon_A_spec (final_total [(11, 1, 0, PxPyPzEVector 0 0 (- 10) 1)]) \<notin>
     set (add_fake_photons [(11, 1, 0, PxPyPzEVector 0 0 (- 10) 1)])"
proof -
  let ?ev = "[(11, 1, 0, PxPyPzEVector 0 0 (- 10) 1)] :: particle list"
  have "read_event ''E 1 0 1'' [''U GEV MM'', ''P 1 0 11 0 0 -10 1 0 1''] = Inr (?ev, [])"
    by (simp add: read_event_def extract_defs store_track_def default_particle_def)
  moreover have "mZ (sum_final ?ev) = - 10" "M4D_E (sum_final ?ev) = 1"
    by (simp_all add: sum_final_def get1_def get3_def M4D_xyz_add M4D_E_add M4D_E_zero)
       (simp_all add: PxPyPzMVector_def PxPyPzEVector_def)
  then have "add_fake_photons ?ev = [fake_photon (- 11 / 2), fake_photon (- 9 / 2),
      (11, 1, 0, PxPyPzEVector 0 0 (- 10) 1)]"
    by (simp add: add_fake_photons_eq)
  moreover have "photon_A_spec (final_total ?ev) =
      (22, - 1, 0, PxPyPzEVector 0 0 (- 9 / 2) (- 9 / 2))"
    by (simp add: photon_A_spec_def final_total_def final_momenta_def get1_def get3_def
        PxPyPzEVector_def)
  ultimately show ?thesis
    by (simp add: fake_photon_eq PxPyPzEVector_def)
qed

text \<open>
  C3, as amended. The two photons are the first two particle lines of the event and the
  original particles follow in their order; the second \<^verbatim>\<open>emplace\<close> also inserts at
  the front, so the photon of \<open>(pz - E) / 2\<close> is written first and the photon of
  \<open>(pz + E) / 2\<close> second.
\<close>

theorem photons_first:
  "write_event (add_fake_photons parV) =
     Raw ''<event>'' # EventHead (length parV + 2) #
     particle_out (fake_photon ((mZ (sum_final parV) - M4D_E (sum_final parV)) / 2)) #
     particle_out (fake_photon ((mZ (sum_final parV) + M4D_E (sum_final parV)) / 2)) #
     map particle_out parV @ [Raw ''</event>'']"
  by (simp add: write_event_def add_fake_photons_eq)

text \<open>The example event of the specification (an electron with pz = 10 and energy
  10.511): the first particle line has pz = -0.2555, the photon of \<open>(pz + E) / 2\<close>
  would have pz = 10.2555.\<close>

theorem photons_first_counterexample:
  "read_event ''E 1 0 1'' [''U GEV MM'', ''P 1 0 11 0 0 10 10.511 0.000511 1''] =
     Inr ([(11, 1, 0, PxPyPzEVector 0 0 10 (10511 / 1000))], []) \<and>
   write_event (add_fake_photons [(11, 1, 0, PxPyPzEVector 0 0 10 (10511 / 1000))]) ! 2 =
     ParticleLine 22 (- 1) (0, 0) 0 0 (- 511 / 2000) (511 / 2000) 0 \<and>
   write_event (add_fake_photons [(11, 1, 0, PxPyPzEVector 0 0 10 (10511 / 1000))]) ! 2 \<noteq>
     particle_out (fake_photon
       ((eZ (final_total [(11, 1, 0, PxPyPzEVector 0 0 10 (10511 / 1000))]) +
         eT (final_total [(11, 1, 0, PxPyPzEVector 0 0 10 (10511 / 1000))])) / 2))"
proof -
  let ?ev = "[(11, 1, 0, PxPyPzEVector 0 0 10 (10511 / 1000))] :: particle list"
  have "read_event ''E 1 0 1'' [''U GEV MM'', ''P 1 0 11 0 0 10 10.511 0.000511 1''] =
      Inr (?ev, [])"
    by (simp add: read_event_def extract_defs store_track_def default_particle_def)
  moreover have "mZ (sum_final ?ev) = 10" "M4D_E (sum_final ?ev) = 10511 / 1000"
    by (simp_all add: sum_final_def get1_def get3_def M4D_xyz_add M4D_E_add M4D_E_zero)
       (simp_all add: PxPyPzMVector_def PxPyPzEVector_def)
  then have first: "write_event (add_fake_photons ?ev) ! 2 =
      ParticleLine 22 (- 1) (0, 0) 0 0 (- 511 / 2000) (511 / 2000) 0"
    by (simp add: write_event_def add_fake_photons_eq particle_out_fake_photon)
  moreover have "particle_out (fake_photon ((eZ (final_total ?ev) + eT (final_total ?ev)) / 2)) =
      ParticleLine 22 (- 1) (0, 0) 0 0 (20511 / 2000) (20511 / 2000) 0"
    by (simp add: particle_out_fake_photon final_total_def final_momenta_def get1_def get3_def
        PxPyPzEVector_def)
  then have "write_event (add_fake_photons ?ev) ! 2 \<noteq>
      particle_out (fake_photon ((eZ (final_total ?ev) + eT (final_total ?ev)) / 2))"
    unfolding first by simp
  ultimately show ?thesis by blast
qed

text \<open>
  C4. In an event whose \<open>n\<close> particle lines have all been read, the particle at
  position \<open>j\<close> is written (after the two photons, as line \<open>j + 4\<close> of the block) with
  status HAS_DAUGHTER (2) if a later particle line of the event declares it as parent, and
  with status FINAL (1) otherwise. The status column of the input plays no part: the
  update of the list is the same for every value of it.
\<close>

theorem status_promotion:
  assumes "read_particles 0 n (replicate n default_particle) lines = Inr (parV, rest)"
    and "j < n"
  shows "out_status (write_event (add_fake_photons parV) ! (j + 4)) =
           Some (if list_ex (declares_parent j) (drop (Suc j) (take n lines)) then 2 else 1) \<and>
         (\<forall>s. store_track pv i (t\<lparr>status := s\<rparr>) = store_track pv i t)"
proof -
  let ?ps = "take n lines"
  note ps = read_particles_event [OF assms(1)]
  from assms(2) ps(2) have j: "j < length ?ps" by simp
  have "get1 (parV ! j) = (if list_ex (declares_parent j) ?ps then 2 else 1)"
    unfolding ps(3) event_particles_nth [OF ps(1) j] by (simp add: get1_def)
  also have "list_ex (declares_parent j) ?ps = list_ex (declares_parent j) (drop (Suc j) ?ps)"
    using list_ex_drop_later [OF ps(1)] by simp
  finally have "get1 (parV ! j) =
      (if list_ex (declares_parent j) (drop (Suc j) ?ps) then 2 else 1)" .
  moreover from assms(2) ps(4) have "write_event (add_fake_photons parV) ! (j + 4) =
      particle_out (parV ! j)"
    by (simp add: write_event_nth)
  ultimately have "out_status (write_event (add_fake_photons parV) ! (j + 4)) =
      Some (if list_ex (declares_parent j) (drop (Suc j) (take n lines)) then 2 else 1)"
    by (simp add: particle_out_def)
  moreover have "\<forall>s. store_track pv i (t\<lparr>status := s\<rparr>) = store_track pv i t"
    by (simp add: store_track_def Let_def)
  ultimately show ?thesis by (rule conjI)
qed

theorem status_promotion_witness:
  "read_particles 0 3 (replicate 3 default_particle) example_tracks =
     Inr (example_particles, []) \<and> (0::nat) < 3 \<and> (1::nat) < 3 \<and>
   out_status (write_event (add_fake_photons example_particles) ! 4) = Some 2 \<and>
   out_status (write_event (add_fake_photons example_particles) ! 5) = Some 1"
proof -
  have d: "list_ex (declares_parent 0) (drop (Suc 0) (take 3 example_tracks))"
      "\<not> list_ex (declares_parent 1) (drop (Suc 1) (take 3 example_tracks))"
    by (simp_all add: example_tracks_def declares_parent_def example_parse)
  from status_promotion [OF example_read, of 0] status_promotion [OF example_read, of 1] d
  show ?thesis by (simp add: example_read)
qed

text \<open>
  C5. In an event whose particle lines have all been read, the two photons are written
  with the parent pair (0, 0), an original particle whose mother index is 0 with (1, 2),
  and an original particle with the mother index \<open>m > 0\<close> with \<open>(m + 2, 0)\<close>.
\<close>

theorem parent_pairs:
  assumes "read_particles 0 n (replicate n default_particle) lines = Inr (parV, rest)"
  shows "out_parents (write_event (add_fake_photons parV) ! 2) = Some (0, 0) \<and>
         out_parents (write_event (add_fake_photons parV) ! 3) = Some (0, 0) \<and>
         (\<forall>j<n. \<exists>t. parse_P (lines ! j) = Some t \<and>
            (momI t = 0 \<longrightarrow>
               out_parents (write_event (add_fake_photons parV) ! (j + 4)) = Some (1, 2)) \<and>
            (0 < momI t \<longrightarrow>
               out_parents (write_event (add_fake_photons parV) ! (j + 4)) =
                 Some (momI t + 2, 0)))"
proof -
  let ?ps = "take n lines"
  let ?W = "write_event (add_fake_photons parV)"
  note ps = read_particles_event [OF assms(1)]
  have ph: "out_parents (?W ! 2) = Some (0, 0)" "out_parents (?W ! 3) = Some (0, 0)"
    by (simp_all add: write_event_photons particle_out_fake_photon)
  have "\<exists>t. parse_P (lines ! j) = Some t \<and>
            (momI t = 0 \<longrightarrow> out_parents (?W ! (j + 4)) = Some (1, 2)) \<and>
            (0 < momI t \<longrightarrow> out_parents (?W ! (j + 4)) = Some (momI t + 2, 0))"
    if j: "j < n" for j
  proof -
    from j ps(2) have jl: "j < length ?ps" and nth: "?ps ! j = lines ! j" by simp_all
    from tracks_ok_nth [OF ps(1) jl] obtain t where t: "parse_P (lines ! j) = Some t"
      using track_ok_D [of j "lines ! j"] by (auto simp: nth)
    from j ps(4) have W: "?W ! (j + 4) = particle_out (parV ! j)"
      by (simp add: write_event_nth)
    have pv: "get1 (parV ! j) = (if list_ex (declares_parent j) ?ps then 2 else 1)"
        "get2 (parV ! j) = momI t"
      unfolding ps(3) event_particles_nth [OF ps(1) jl] by (simp_all add: get1_def get2_def nth t)
    then have "out_parents (?W ! (j + 4)) = Some (momS (get1 (parV ! j)) (momI t))"
      by (simp add: W particle_out_def)
    with pv(1) t show ?thesis by (auto simp: momS_def)
  qed
  with ph show ?thesis by blast
qed

theorem parent_pairs_witness:
  "read_particles 0 3 (replicate 3 default_particle) example_tracks =
     Inr (example_particles, []) \<and>
   out_parents (write_event (add_fake_photons example_particles) ! 2) = Some (0, 0) \<and>
   out_parents (write_event (add_fake_photons example_particles) ! 3) = Some (0, 0) \<and>
   out_parents (write_event (add_fake_photons example_particles) ! 4) = Some (1, 2) \<and>
   out_parents (write_event (add_fake_photons example_particles) ! 5) = Some (3, 0) \<and>
   out_parents (write_event (add_fake_photons example_particles) ! 6) = Some (3, 0)"
proof -
  note pp = parent_pairs [OF example_read]
  from pp have all: "\<exists>t. parse_P (example_tracks ! j) = Some t \<and>
      (momI t = 0 \<longrightarrow>
         out_parents (write_event (add_fake_photons example_particles) ! (j + 4)) = Some (1, 2)) \<and>
      (0 < momI t \<longrightarrow>
         out_parents (write_event (add_fake_photons example_particles) ! (j + 4)) =
           Some (momI t + 2, 0))" if "j < 3" for j
    using that by blast
  from all [of 0]
  have a: "out_parents (write_event (add_fake_photons example_particles) ! 4) = Some (1, 2)"
    by (auto simp: example_tracks_def example_parse)
  from all [of 1]
  have b: "out_parents (write_event (add_fake_photons example_particles) ! 5) = Some (3, 0)"
    by (auto simp: example_tracks_def example_parse)
  from all [of 2]
  have c: "out_parents (write_event (add_fake_photons example_particles) ! 6) = Some (3, 0)"
    by (auto simp: example_tracks_def example_parse)
  from pp a b c show ?thesis by (simp add: example_read)
qed

text \<open>
  C6. A well-formed listing is a sequence of events (event line declaring \<open>k\<close>
  particles, unit line, \<open>k\<close> particle lines that pass the checks) and of lines the loop
  passes over, ended by the end of the file or by the end marker. With \<open>N\<close> events
  declaring \<open>k\<^sub>1, \<dots>, k\<^sub>N\<close> the document is the header, \<open>N\<close> event blocks and the closing
  tag, and block \<open>i\<close> holds the count \<open>k\<^sub>i + 2\<close> and exactly \<open>k\<^sub>i + 2\<close> particle lines.
\<close>

theorem well_formed_blocks:
  assumes "list_all segment_ok segs" and "listing_end tail"
  shows "\<exists>blocks.
           convert_UGHEPMC2LHE (concat (map lines_of segs) @ tail) beamE1 beamE2 fidxsec totxsec =
             (lhe_header beamE1 beamE2 fidxsec totxsec @ concat blocks @
                [Raw ''</LesHouchesEvents>''], None) \<and>
           list_all2 is_event_block (declared_counts segs) blocks"
proof -
  from convert_events_segments [OF assms(1), of tail] convert_events_end [OF assms(2)]
  have "convert_events (concat (map lines_of segs) @ tail) =
      (concat (event_blocks segs), None)"
    by (simp add: segment_out_blocks)
  then have "convert_UGHEPMC2LHE (concat (map lines_of segs) @ tail) beamE1 beamE2 fidxsec totxsec =
      (lhe_header beamE1 beamE2 fidxsec totxsec @ concat (event_blocks segs) @
         [Raw ''</LesHouchesEvents>''], None)"
    by (simp add: convert_UGHEPMC2LHE_def)
  with event_blocks_ok [OF assms(1)] show ?thesis by blast
qed

theorem well_formed_blocks_witness:
  "list_all segment_ok example_segments \<and>
   listing_end [''HepMC::IO_GenEvent-END_EVENT_LISTING''] \<and>
   (\<exists>blocks.
      convert_UGHEPMC2LHE
        ([''HepMC::Version 2.06.09'', ''HepMC::IO_GenEvent-START_EVENT_LISTING'',
          ''E 1 0 3'', ''U GEV MM''] @ example_tracks @
         [''E 2 0 1'', ''U GEV MM'', electron_track, ''HepMC::IO_GenEvent-END_EVENT_LISTING''])
        2510 2510 1 3 =
        (lhe_header 2510 2510 1 3 @ concat blocks @ [Raw ''</LesHouchesEvents>''], None) \<and>
      list_all2 is_event_block [3, 1] blocks)"
proof -
  have e: "listing_end [''HepMC::IO_GenEvent-END_EVENT_LISTING'']"
    by (simp add: listing_end_def)
  have l: "concat (map lines_of example_segments) @ [''HepMC::IO_GenEvent-END_EVENT_LISTING''] =
      [''HepMC::Version 2.06.09'', ''HepMC::IO_GenEvent-START_EVENT_LISTING'',
       ''E 1 0 3'', ''U GEV MM''] @ example_tracks @
      [''E 2 0 1'', ''U GEV MM'', electron_track, ''HepMC::IO_GenEvent-END_EVENT_LISTING'']"
    by (simp add: example_segments_def)
  have c: "declared_counts example_segments = [3, 1]"
    by (simp add: example_segments_def example_headers)
  from well_formed_blocks [OF example_segments_ok e, of 2510 2510 1 3] example_segments_ok e
  show ?thesis unfolding l c by blast
qed

text \<open>
  C7, as amended. The specification asks for the abort for every listing that holds such a
  line; the checks of line 69 only see the lines the particle loop reads. So: after any
  well-formed segments, in an event declaring \<open>n\<close> particles, let the particle loop
  meet, after fewer than \<open>n\<close> good lines, a particle line whose position index is not
  its place in the event or whose parent index is not below its position index. The run
  stops with the track-line error, and what has been written is the header and the blocks
  of the earlier events: nothing of the failing event.
\<close>

theorem bad_track_aborts:
  assumes "list_all segment_ok segs" and "header_ok e" and "nPar_of e = int n"
    and "units_ok u" and "tracks_ok 0 ps" and "length ps < n"
    and "parse_P b = Some t" and "parI t \<noteq> int (length ps) + 1 \<or> parI t \<le> momI t"
  shows "convert_UGHEPMC2LHE (concat (map lines_of segs) @ e # u # ps @ b # post)
           beamE1 beamE2 fidxsec totxsec =
         (lhe_header beamE1 beamE2 fidxsec totxsec @
            fst (convert_events (concat (map lines_of segs))),
          Some TrackLineError)"
proof -
  from assms(7,8) have "\<not> track_ok (length ps) b"
    by (auto simp: track_ok_def)
  from read_event_bad [OF assms(2-6) this]
  have r: "read_event e (u # ps @ b # post) = Inl TrackLineError" .
  from assms(2) have m: "\<not> contains ''END_EVENT_LISTING'' e" "starts_with ''E '' e"
    by (simp_all add: header_ok_def)
  with r have ev: "convert_events (e # u # ps @ b # post) = ([], Some TrackLineError)"
    by simp
  from convert_events_segments [OF assms(1), of "e # u # ps @ b # post"] ev
  have 1: "convert_events (concat (map lines_of segs) @ e # u # ps @ b # post) =
      (concat (map segment_out segs), Some TrackLineError)"
    by simp
  from convert_events_segments [OF assms(1), of "[]"]
  have 2: "fst (convert_events (concat (map lines_of segs))) = concat (map segment_out segs)"
    by simp
  from 1 2 show ?thesis by (simp add: convert_UGHEPMC2LHE_def)
qed

theorem bad_track_aborts_witness:
  "list_all segment_ok [EventBlock ''E 1 0 3'' ''U GEV MM'' example_tracks] \<and>
   header_ok ''E 2 0 2'' \<and> nPar_of ''E 2 0 2'' = int 2 \<and> units_ok ''U GEV MM'' \<and>
   tracks_ok 0 [electron_track] \<and> length [electron_track] < 2 \<and>
   parse_P ''P 2 2 22 0 0 1 1 0 1'' =
     Some \<lparr>label = ''P'', parI = 2, momI = 2, pdgId = 22, px = 0, py = 0, pz = 1, en = 1,
           mass = 0, status = 1\<rparr> \<and>
   convert_UGHEPMC2LHE
     ([''E 1 0 3'', ''U GEV MM''] @ example_tracks @
      [''E 2 0 2'', ''U GEV MM'', electron_track, ''P 2 2 22 0 0 1 1 0 1''])
     2510 2510 1 3 =
     (lhe_header 2510 2510 1 3 @ write_event (add_fake_photons example_particles),
      Some TrackLineError)"
proof -
  let ?segs = "[EventBlock ''E 1 0 3'' ''U GEV MM'' example_tracks]"
  have s: "list_all segment_ok ?segs"
    by (simp add: example_headers example_tracks_ok) (simp add: example_tracks_def)
  have n: "nPar_of ''E 2 0 2'' = int 2" by (simp add: example_headers)
  have l: "length [electron_track] < 2" by simp
  have b: "parse_P ''P 2 2 22 0 0 1 1 0 1'' =
     Some \<lparr>label = ''P'', parI = 2, momI = 2, pdgId = 22, px = 0, py = 0, pz = 1, en = 1,
           mass = 0, status = 1\<rparr>"
    by (simp add: extract_defs)
  have c: "parI \<lparr>label = ''P'', parI = 2, momI = 2, pdgId = 22, px = 0, py = 0, pz = 1, en = 1,
           mass = 0, status = 1\<rparr> \<noteq> int (length [electron_track]) + 1 \<or>
      parI \<lparr>label = ''P'', parI = 2, momI = 2, pdgId = 22, px = 0, py = 0, pz = 1, en = 1,
           mass = 0, status = 1\<rparr> \<le>
      momI \<lparr>label = ''P'', parI = 2, momI = 2, pdgId = 22, px = 0, py = 0, pz = 1, en = 1,
           mass = 0, status = 1\<rparr>"
    by simp
  have o: "fst (convert_events (concat (map lines_of ?segs))) =
      write_event (add_fake_photons example_particles)"
    using convert_events_segments [OF s, of "[]"] by (simp add: example_event_particles)
  from bad_track_aborts [OF s example_headers(5) n example_headers(7) example_tracks_ok(2) l b c,
      of "[]" 2510 2510 1 3]
  have "convert_UGHEPMC2LHE
     ([''E 1 0 3'', ''U GEV MM''] @ example_tracks @
      [''E 2 0 2'', ''U GEV MM'', electron_track, ''P 2 2 22 0 0 1 1 0 1''])
     2510 2510 1 3 =
     (lhe_header 2510 2510 1 3 @ write_event (add_fake_photons example_particles),
      Some TrackLineError)"
    unfolding o by simp
  with s n l b example_headers example_tracks_ok show ?thesis by simp
qed

text \<open>An event declaring one particle, followed by a particle line whose parent index 2
  is not below its position index 2: the main loop passes the line over, the run ends
  without an error and the document is complete.\<close>

theorem bad_track_aborts_counterexample:
  "parse_P ''P 2 2 22 0 0 1 1 0 1'' =
     Some \<lparr>label = ''P'', parI = 2, momI = 2, pdgId = 22, px = 0, py = 0, pz = 1, en = 1,
           mass = 0, status = 1\<rparr> \<and>
   convert_UGHEPMC2LHE
     [''E 2 0 1'', ''U GEV MM'', electron_track, ''P 2 2 22 0 0 1 1 0 1''] 2510 2510 1 3 =
     (lhe_header 2510 2510 1 3 @
        write_event (add_fake_photons [(11, 1, 0, PxPyPzEVector 0 0 10 (10511 / 1000))]) @
        [Raw ''</LesHouchesEvents>''],
      None)"
proof -
  have p: "parse_P ''P 2 2 22 0 0 1 1 0 1'' =
     Some \<lparr>label = ''P'', parI = 2, momI = 2, pdgId = 22, px = 0, py = 0, pz = 1, en = 1,
           mass = 0, status = 1\<rparr>"
    by (simp add: extract_defs)
  have "segment_ok (EventBlock ''E 2 0 1'' ''U GEV MM'' [electron_track])"
    by (simp add: example_headers example_tracks_ok)
       (simp add: electron_track_def track_ok_def example_parse)
  from convert_events_event [OF this, of "[''P 2 2 22 0 0 1 1 0 1'']"]
  have "convert_events [''E 2 0 1'', ''U GEV MM'', electron_track, ''P 2 2 22 0 0 1 1 0 1''] =
      (write_event (add_fake_photons [(11, 1, 0, PxPyPzEVector 0 0 10 (10511 / 1000))]), None)"
    by (simp add: example_event_particles)
  then have "convert_UGHEPMC2LHE
     [''E 2 0 1'', ''U GEV MM'', electron_track, ''P 2 2 22 0 0 1 1 0 1''] 2510 2510 1 3 =
     (lhe_header 2510 2510 1 3 @
        write_event (add_fake_photons [(11, 1, 0, PxPyPzEVector 0 0 10 (10511 / 1000))]) @
        [Raw ''</LesHouchesEvents>''],
      None)"
    by (simp add: convert_UGHEPMC2LHE_def)
  with p show ?thesis by (rule conjI)
qed

text \<open>
  C8, as amended. While the loop expects an event line or the end, a line without the
  end marker that is not a valid event line is passed over without an error when it does
  not begin with \<open>E \<close> (a surplus particle line is such a line), and stops the run with
  the event-line error when it begins with \<open>E \<close>.
\<close>

theorem header_state_lines:
  assumes "\<not> contains ''END_EVENT_LISTING'' line"
    and "\<not> (starts_with ''E '' line \<and> parse_E line \<noteq> None)"
  shows "convert_events (line # rest) =
           (if starts_with ''E '' line then ([], Some EventLineError) else convert_events rest)"
proof (cases "starts_with ''E '' line")
  case True
  with assms(2) have "parse_E line = None" by blast
  then have "read_event line rest = Inl EventLineError" by (simp add: read_event_def)
  with True assms(1) show ?thesis by simp
next
  case False
  with assms(1) show ?thesis by simp
qed

theorem header_state_lines_witness:
  "\<not> contains ''END_EVENT_LISTING'' ''P 2 1 22 0 0 1 1 0 1'' \<and>
   \<not> (starts_with ''E '' ''P 2 1 22 0 0 1 1 0 1'' \<and> parse_E ''P 2 1 22 0 0 1 1 0 1'' \<noteq> None) \<and>
   convert_events [''P 2 1 22 0 0 1 1 0 1''] = ([], None) \<and>
   \<not> contains ''END_EVENT_LISTING'' ''E 1 0 x'' \<and>
   \<not> (starts_with ''E '' ''E 1 0 x'' \<and> parse_E ''E 1 0 x'' \<noteq> None) \<and>
   convert_events [''E 1 0 x'', ''U GEV MM''] = ([], Some EventLineError)"
proof -
  have a: "\<not> contains ''END_EVENT_LISTING'' ''P 2 1 22 0 0 1 1 0 1''"
    and b: "\<not> (starts_with ''E '' ''P 2 1 22 0 0 1 1 0 1'' \<and>
             parse_E ''P 2 1 22 0 0 1 1 0 1'' \<noteq> None)"
    and c: "\<not> contains ''END_EVENT_LISTING'' ''E 1 0 x''"
    by simp_all
  have p: "parse_E ''E 1 0 x'' = None" by (simp add: extract_defs)
  then have d: "\<not> (starts_with ''E '' ''E 1 0 x'' \<and> parse_E ''E 1 0 x'' \<noteq> None)" by simp
  from header_state_lines [OF a b, of "[]"] header_state_lines [OF c d, of "[''U GEV MM'']"]
    a b c d
  show ?thesis by simp
qed

text \<open>An event declaring one particle, followed by a second particle line: the line is
  passed over, the run ends without an error and the block holds the one electron.\<close>

theorem header_state_lines_counterexample:
  "\<not> contains ''END_EVENT_LISTING'' ''P 2 1 22 0 0 1 1 0 1'' \<and>
   \<not> starts_with ''E '' ''P 2 1 22 0 0 1 1 0 1'' \<and>
   convert_events [''E 2 0 1'', ''U GEV MM'', electron_track, ''P 2 1 22 0 0 1 1 0 1''] =
     (write_event (add_fake_photons [(11, 1, 0, PxPyPzEVector 0 0 10 (10511 / 1000))]), None)"
proof -
  have "segment_ok (EventBlock ''E 2 0 1'' ''U GEV MM'' [electron_track])"
    by (simp add: example_headers example_tracks_ok)
       (simp add: electron_track_def track_ok_def example_parse)
  from convert_events_event [OF this, of "[''P 2 1 22 0 0 1 1 0 1'']"]
  show ?thesis by (simp add: example_event_particles)
qed

text \<open>
  C9. Each synthesized photon has the invariant mass 0 and the energy \<open>\<bar>pz\<bar>\<close>, which is
  not negative, whatever the sign of its pz.
\<close>

theorem fake_photons_massless:
  "E4D_M (get3 (add_fake_photons parV ! 0)) = 0 \<and>
   eT (get3 (add_fake_photons parV ! 0)) = \<bar>eZ (get3 (add_fake_photons parV ! 0))\<bar> \<and>
   0 \<le> eT (get3 (add_fake_photons parV ! 0)) \<and>
   E4D_M (get3 (add_fake_photons parV ! 1)) = 0 \<and>
   eT (get3 (add_fake_photons parV ! 1)) = \<bar>eZ (get3 (add_fake_photons parV ! 1))\<bar> \<and>
   0 \<le> eT (get3 (add_fake_photons parV ! 1))"
  by (simp add: add_fake_photons_eq fake_photon_sel fake_photon_mass)

text \<open>
  C10. A particle line with a negative parent index passes the checks when its label and
  position are right; the loop stores it at its position and changes no other record;
  in every event read to its end that holds the line, it is written with the parent pair
  \<open>(parent index + 2, 0)\<close>: the parent index -1 gives (1, 0).
\<close>

theorem negative_parent:
  assumes "parse_P line = Some t" and "momI t < 0"
  shows "(label t = ''P'' \<and> parI t = int iPar + 1 \<and> iPar < nPar \<longrightarrow>
            read_particles iPar nPar parV (line # rest) =
              read_particles (Suc iPar) nPar
                (parV[iPar := (pdgId t, 1, momI t, PxPyPzEVector (px t) (py t) (pz t) (en t))])
                rest) \<and>
         (\<forall>n lines parV' rest' j.
            read_particles 0 n (replicate n default_particle) lines = Inr (parV', rest') \<and>
            j < n \<and> lines ! j = line \<longrightarrow>
            out_parents (write_event (add_fake_photons parV') ! (j + 4)) =
              Some (momI t + 2, 0))"
proof (intro conjI allI impI)
  assume "label t = ''P'' \<and> parI t = int iPar + 1 \<and> iPar < nPar"
  with assms show "read_particles iPar nPar parV (line # rest) =
      read_particles (Suc iPar) nPar
        (parV[iPar := (pdgId t, 1, momI t, PxPyPzEVector (px t) (py t) (pz t) (en t))]) rest"
    by (simp add: store_track_def)
next
  fix n lines parV' rest' j
  assume h: "read_particles 0 n (replicate n default_particle) lines = Inr (parV', rest') \<and>
      j < n \<and> lines ! j = line"
  then have r: "read_particles 0 n (replicate n default_particle) lines = Inr (parV', rest')"
    and j: "j < n" and l: "lines ! j = line" by simp_all
  from emitted_line [OF r j] assms(1) l
  have "write_event (add_fake_photons parV') ! (j + 4) =
      particle_out (pdgId t, if list_ex (declares_parent j) (take n lines) then 2 else 1,
        momI t, PxPyPzEVector (px t) (py t) (pz t) (en t))"
    by simp
  with assms(2) show "out_parents (write_event (add_fake_photons parV') ! (j + 4)) =
      Some (momI t + 2, 0)"
    by (simp add: out_parents_particle_out momS_def)
qed

theorem negative_parent_witness:
  "parse_P ''P 2 -1 11 0 0 45 45 0 1'' =
     Some \<lparr>label = ''P'', parI = 2, momI = - 1, pdgId = 11, px = 0, py = 0, pz = 45, en = 45,
           mass = 0, status = 1\<rparr> \<and>
   read_particles 1 2 [(23, 1, 0, PxPyPzEVector 0 0 0 91), default_particle]
     [''P 2 -1 11 0 0 45 45 0 1''] =
     Inr ([(23, 1, 0, PxPyPzEVector 0 0 0 91), (11, 1, - 1, PxPyPzEVector 0 0 45 45)], []) \<and>
   read_particles 0 2 (replicate 2 default_particle)
     [''P 1 0 23 0 0 0 91 91 1'', ''P 2 -1 11 0 0 45 45 0 1''] =
     Inr ([(23, 1, 0, PxPyPzEVector 0 0 0 91), (11, 1, - 1, PxPyPzEVector 0 0 45 45)], []) \<and>
   out_parents (write_event (add_fake_photons
     [(23, 1, 0, PxPyPzEVector 0 0 0 91), (11, 1, - 1, PxPyPzEVector 0 0 45 45)]) ! 5) =
     Some (1, 0)"
proof -
  let ?t = "\<lparr>label = ''P'', parI = 2, momI = - 1, pdgId = 11, px = 0, py = 0, pz = 45, en = 45,
           mass = 0, status = 1\<rparr>"
  let ?pv = "[(23, 1, 0, PxPyPzEVector 0 0 0 91), (11, 1, - 1, PxPyPzEVector 0 0 45 45)]"
  have p: "parse_P ''P 2 -1 11 0 0 45 45 0 1'' = Some ?t"
    by (simp add: extract_defs)
  have m: "momI ?t < 0" by simp
  have r: "read_particles 0 2 (replicate 2 default_particle)
     [''P 1 0 23 0 0 0 91 91 1'', ''P 2 -1 11 0 0 45 45 0 1''] = Inr (?pv, [])"
    by (simp add: p example_parse store_track_def default_particle_def numeral_2_eq_2)
  note np = negative_parent [OF p m, of 1 2 "[(23, 1, 0, PxPyPzEVector 0 0 0 91), default_particle]" "[]"]
  from np have "read_particles 1 2 [(23, 1, 0, PxPyPzEVector 0 0 0 91), default_particle]
     [''P 2 -1 11 0 0 45 45 0 1''] = Inr (?pv, [])"
    by (simp add: numeral_2_eq_2)
  moreover from np r have "out_parents (write_event (add_fake_photons ?pv) ! (1 + 4)) =
      Some (momI ?t + 2, 0)"
    by (elim conjE allE [of _ 2] allE [of _ "[''P 1 0 23 0 0 0 91 91 1'', ''P 2 -1 11 0 0 45 45 0 1'']"]
        allE [of _ ?pv] allE [of _ "[]"] allE [of _ 1]) simp
  ultimately show ?thesis using p r by simp
qed

end
